theory Spec2Isabelle
  imports Complex_Main
begin

section \<open>The gaze tracker of \<open>main.py\<close>\<close>

text \<open>
  The development follows the class \<open>GazeTracker\<close>: the calibration store, the
  calibration procedure, the smoother, the position mapper and the bubble game.
  Python's numbers are modelled by exact arithmetic: every quantity that the program
  holds as a float is a \<open>real\<close> here, so the rounding and the overflow of IEEE
  doubles are outside the model. The statements below are therefore about which
  operations the program applies to which values; a property that holds only because
  the arithmetic is exact is not stated, and the concrete inputs of the counterexamples
  are chosen so that every operation on them is exact in doubles as well. Screen sizes, counters and list
  indices are \<open>int\<close> and \<open>nat\<close>.
\<close>

subsection \<open>Exceptions\<close>

text \<open>
  The exceptions that the modelled statements can raise. \<open>SystemExit\<close> is what
  \<open>sys.exit()\<close> raises. \<open>DegenerateCalibration\<close> is the failure that the
  specification names for a calibration axis of zero span; it is listed so that
  statements about it can be written down, and no statement of the source raises it.
\<close>

datatype error =
    ZeroDivisionError
  | IndexError
  | TypeError
  | ValueError
  | SystemExit
  | DegenerateCalibration

subsection \<open>Calibration store and tracker object\<close>

text \<open>
  \<open>calibration_data\<close> is the dictionary \<open>{"top": .., "left": .., "right": .., "bottom": ..}\<close>.
  Its key set is fixed, so it is a record; the field for the key \<open>"top"\<close> is called
  \<open>top'\<close>, because \<open>top\<close> is already a constant of the library.
\<close>

record calibration =
  top' :: real
  left :: real
  right :: real
  bottom :: real

text \<open>The attributes of a \<open>GazeTracker\<close> that the modelled methods read or write.\<close>

record gaze_tracker =
  SCREEN_WIDTH :: int
  SCREEN_HEIGHT :: int
  max_positions :: int
  last_positions :: "(real \<times> real) list"
  calibration_data :: calibration

subsection \<open>The position mapper\<close>

text \<open>
  The slice \<open>xs[start:]\<close> of Python: a negative \<open>start\<close> counts from the end and is
  cut off at the beginning of the list, and \<open>xs[-0:]\<close> is \<open>xs[0:]\<close>, the whole list.
\<close>

definition slice_from :: "'a list \<Rightarrow> int \<Rightarrow> 'a list" where
  "slice_from xs start =
     (if start < 0 then drop (nat (int (length xs) + start)) xs
      else drop (nat start) xs)"

text \<open>
  \<open>get_gaze_position\<close>, statement by statement. The two divisions of the
  normalisation and the division of the return statement raise \<open>ZeroDivisionError\<close> on
  a zero divisor (Python does so for floats as for ints). A call that returns yields
  the updated tracker, \<open>x_avg\<close>, \<open>y_avg\<close> and the normalised pair. A call that raises
  yields the exception together with the tracker as the statements before the raise
  have left it: unchanged when a normalising division raises, and with the new history
  already stored when the division of the return statement raises.
\<close>

definition get_gaze_position ::
  "gaze_tracker \<Rightarrow> real \<Rightarrow> real \<Rightarrow>
     (error \<times> gaze_tracker) + (gaze_tracker \<times> real \<times> real \<times> (real \<times> real))"
where
  "get_gaze_position self horizontal_ratio vertical_ratio =
     (let c = calibration_data self;
          horizontal_ratio = max (right c) (min horizontal_ratio (left c));
          vertical_ratio = max (top' c) (min vertical_ratio (bottom c))
      in if left c - right c = 0 then Inl (ZeroDivisionError, self)
         else
           let normalized_horizontal =
                 1 - (horizontal_ratio - right c) / (left c - right c)
           in if bottom c - top' c = 0 then Inl (ZeroDivisionError, self)
              else
                let normalized_vertical = (vertical_ratio - top' c) / (bottom c - top' c);
                    x = normalized_horizontal * real_of_int (SCREEN_WIDTH self);
                    y = normalized_vertical * real_of_int (SCREEN_HEIGHT self);
                    positions = slice_from (last_positions self @ [(x, y)])
                                  (- max_positions self);
                    (x_sum, y_sum) =
                      foldl (\<lambda>(x_sum, y_sum) (x, y). (x_sum + x, y_sum + y)) (0, 0) positions
                in if max_positions self = 0
                   then Inl (ZeroDivisionError, self\<lparr>last_positions := positions\<rparr>)
                   else Inr (self\<lparr>last_positions := positions\<rparr>,
                             x_sum / real_of_int (max_positions self),
                             y_sum / real_of_int (max_positions self),
                             (normalized_horizontal, normalized_vertical)))"

subsection \<open>The calibration smoother\<close>

text \<open>
  \<open>smooth_calibration\<close> writes \<open>top\<close> and \<open>bottom\<close> first and reads \<open>left\<close> and
  \<open>right\<close> afterwards; the model threads the dictionary through the four assignments in
  the order of the source.
\<close>

definition smooth_calibration :: "calibration \<Rightarrow> calibration" where
  "smooth_calibration c0 =
     (let vertical_middle = (top' c0 + bottom c0) / 2;
          vertical_delta = vertical_middle * 0.020;
          c1 = c0\<lparr>top' := vertical_middle - vertical_delta\<rparr>;
          c2 = c1\<lparr>bottom := vertical_middle + vertical_delta\<rparr>;
          horizontal_middle = (left c2 + right c2) / 2;
          horizontal_delta = vertical_middle * 0.030;
          c3 = c2\<lparr>right := horizontal_middle - horizontal_delta\<rparr>;
          c4 = c3\<lparr>left := horizontal_middle + horizontal_delta\<rparr>
      in c4)"

subsection \<open>The detector's readings and the input events of one frame\<close>

text \<open>
  One pass of a frame loop sees what the pupil detector reports for the camera frame
  (\<open>horizontal_ratio()\<close>, \<open>is_blinking()\<close>, \<open>pupil_left_coords()\<close>,
  \<open>pupil_right_coords()\<close>, each of the last three possibly \<open>None\<close>), the events that
  \<open>pygame.event.get()\<close> returns, and the pair of numbers that the two calls of
  \<open>random.randint\<close> would return on that frame.
\<close>

datatype event = QUIT | KEYDOWN_SPACE | OTHER

record frame =
  horizontal_ratio :: "real option"
  is_blinking :: bool
  pupil_left_coords :: "(real \<times> real) option"
  pupil_right_coords :: "(real \<times> real) option"
  events :: "event list"
  randint :: "int \<times> int"

subsection \<open>The calibration procedure\<close>

definition num_bubbles :: nat where
  "num_bubbles = 5"

text \<open>The targets that \<open>__init__\<close> appends, four per round of its loop.\<close>

definition bubbles :: "int \<Rightarrow> int \<Rightarrow> (int \<times> int) list" where
  "bubbles W H =
     concat (map (\<lambda>i.
       [((W div (int num_bubbles + 1)) * (int i + 1), 0),
        (0, (H div (int num_bubbles + 1)) * (int i + 1)),
        (W, (H div (int num_bubbles + 1)) * (int i + 1)),
        ((W div (int num_bubbles + 1)) * (int i + 1), H)]) [0..<num_bubbles])"

text \<open>
  \<open>list(self.calibration_data.keys())\<close> for the dictionary that \<open>__init__\<close> creates
  before it calls \<open>run_calibration\<close>.
\<close>

definition calibration_location :: "string list" where
  "calibration_location = [''top'', ''left'', ''right'', ''bottom'']"

text \<open>\<open>self.calibration_data[name] += v\<close> for a name among the four keys.\<close>

definition add_to :: "string \<Rightarrow> real \<Rightarrow> calibration \<Rightarrow> calibration" where
  "add_to name v c =
     (if name = ''top'' then c\<lparr>top' := top' c + v\<rparr>
      else if name = ''left'' then c\<lparr>left := left c + v\<rparr>
      else if name = ''right'' then c\<lparr>right := right c + v\<rparr>
      else if name = ''bottom'' then c\<lparr>bottom := bottom c + v\<rparr>
      else c)"

text \<open>
  The branch of \<open>run_calibration\<close> for a press of the space bar, on the calibration
  store and \<open>current_bubble_index\<close>. Indexing \<open>calibration_location\<close> out of range
  raises \<open>IndexError\<close>, and subscripting a pupil reading that is \<open>None\<close> raises
  \<open>TypeError\<close>.
\<close>

definition calibrate_space :: "frame \<Rightarrow> calibration \<times> nat \<Rightarrow> error + calibration \<times> nat" where
  "calibrate_space f s =
     (let (c, current_bubble_index) = s
      in if length calibration_location \<le> current_bubble_index div num_bubbles
         then Inl IndexError
         else
           let current_bubble_name = calibration_location ! (current_bubble_index div num_bubbles)
           in if horizontal_ratio f = None then Inr (c, current_bubble_index)
              else
                let current_bubble_index = current_bubble_index + 1
                in if current_bubble_name = ''top'' \<or> current_bubble_name = ''bottom'' then
                     (case (pupil_left_coords f, pupil_right_coords f) of
                        (Some l, Some r) \<Rightarrow>
                          Inr (add_to current_bubble_name
                                 (((snd l + snd r) / 2) / real num_bubbles) c,
                               current_bubble_index)
                      | _ \<Rightarrow> Inl TypeError)
                   else if current_bubble_name = ''left'' \<or> current_bubble_name = ''right'' then
                     (case (pupil_left_coords f, pupil_right_coords f) of
                        (Some l, Some r) \<Rightarrow>
                          Inr (add_to current_bubble_name
                                 (((fst l + fst r) / 2) / real num_bubbles) c,
                               current_bubble_index)
                      | _ \<Rightarrow> Inl TypeError)
                   else Inr (c, current_bubble_index))"

text \<open>The event loop of one calibration frame: \<open>QUIT\<close> leaves through \<open>sys.exit()\<close>.\<close>

fun calibration_events :: "frame \<Rightarrow> event list \<Rightarrow> calibration \<times> nat \<Rightarrow> error + calibration \<times> nat" where
  "calibration_events f [] s = Inr s"
| "calibration_events f (QUIT # es) s = Inl SystemExit"
| "calibration_events f (KEYDOWN_SPACE # es) s =
     (case calibrate_space f s of
        Inl e \<Rightarrow> Inl e
      | Inr s' \<Rightarrow> calibration_events f es s')"
| "calibration_events f (OTHER # es) s = calibration_events f es s"

text \<open>
  \<open>run_calibration\<close> on the frames that the camera delivers. The loop waits for the
  user without a bound, so the model runs it on a finite sequence of frames and returns
  the store and the index reached when the sequence ends or all targets are visited.
\<close>

fun run_calibration ::
  "int \<Rightarrow> int \<Rightarrow> frame list \<Rightarrow> calibration \<times> nat \<Rightarrow> error + calibration \<times> nat"
where
  "run_calibration W H [] s = Inr s"
| "run_calibration W H (f # fs) s =
     (if snd s < length (bubbles W H) then
        (case calibration_events f (events f) s of
           Inl e \<Rightarrow> Inl e
         | Inr s' \<Rightarrow> run_calibration W H fs s')
      else Inr s)"

text \<open>
  A target lies on the screen edge named \<open>name\<close>: the top edge is the row \<open>y = 0\<close>, the
  left edge the column \<open>x = 0\<close>, the right edge the column \<open>x = W\<close> and the bottom edge
  the row \<open>y = H\<close>.
\<close>

definition lies_on :: "int \<Rightarrow> int \<Rightarrow> string \<Rightarrow> int \<times> int \<Rightarrow> bool" where
  "lies_on W H name p =
     (name = ''top'' \<and> snd p = 0 \<or> name = ''left'' \<and> fst p = 0 \<or>
      name = ''right'' \<and> fst p = W \<or> name = ''bottom'' \<and> snd p = H)"

subsection \<open>The bubble game\<close>

text \<open>
  The local variables of \<open>spawn_random_bubbles\<close> together with the tracker object.
  \<open>hits\<close> records the bubble numbers of the lines \<open>Bubble n hit!\<close> printed so far.
\<close>

record bubble_state =
  tracker :: gaze_tracker
  bubbles_left :: int
  bubble_position :: "(int \<times> int) option"
  gaze_on_bubble :: bool
  hits :: "int list"

text \<open>
  One pass of the loop body. \<open>random.randint(50, n - 50)\<close> raises \<open>ValueError\<close> on an
  empty range. No exception is caught, so a pass that raises ends the program and
  yields the exception alone. A pass that maps the gaze ends with the event loop, where \<open>QUIT\<close> leaves
  through \<open>sys.exit()\<close>; the two \<open>continue\<close> statements skip it.
\<close>

definition bubble_frame :: "int \<Rightarrow> bubble_state \<Rightarrow> frame \<Rightarrow> error + bubble_state" where
  "bubble_frame total_bubbles s f =
     (let self = tracker s
      in case (case bubble_position s of
                 None \<Rightarrow>
                   if SCREEN_WIDTH self - 50 < 50 \<or> SCREEN_HEIGHT self - 50 < 50
                   then Inl ValueError else Inr (randint f)
               | Some p \<Rightarrow> Inr p) of
           Inl e \<Rightarrow> Inl e
         | Inr position \<Rightarrow>
             if (gaze_on_bubble s \<and> is_blinking f) \<or>
                (gaze_on_bubble s \<and> pupil_left_coords f = None)
             then Inr (s\<lparr>hits := hits s @ [total_bubbles - bubbles_left s + 1],
                         bubble_position := None,
                         bubbles_left := bubbles_left s - 1,
                         gaze_on_bubble := False\<rparr>)
             else
               (case (pupil_left_coords f, pupil_right_coords f) of
                  (Some l, Some r) \<Rightarrow>
                    (let horizontal_coordinates = (fst l + fst r) / 2;
                         vertical_coordinates = (snd l + snd r) / 2
                     in case get_gaze_position self horizontal_coordinates vertical_coordinates of
                          Inl (e, self') \<Rightarrow> Inl e
                        | Inr (self', gaze_x, gaze_y, multipliers) \<Rightarrow>
                            let dist = sqrt ((gaze_x - real_of_int (fst position))\<^sup>2 +
                                             (gaze_y - real_of_int (snd position))\<^sup>2);
                                s' = s\<lparr>tracker := self',
                                       bubble_position := Some position,
                                       gaze_on_bubble := (dist \<le> 50)\<rparr>
                            in if QUIT \<in> set (events f) then Inl SystemExit else Inr s')
                | _ \<Rightarrow> Inr (s\<lparr>bubble_position := Some position\<rparr>)))"

text \<open>
  The loop \<open>while bubbles_left > 0\<close> on the frames that the camera delivers; it ends
  only when enough hits have been made, so the model runs it on a finite sequence of
  frames.
\<close>

fun bubble_loop :: "int \<Rightarrow> bubble_state \<Rightarrow> frame list \<Rightarrow> error + bubble_state" where
  "bubble_loop total_bubbles s [] = Inr s"
| "bubble_loop total_bubbles s (f # fs) =
     (if bubbles_left s > 0 then
        (case bubble_frame total_bubbles s f of
           Inl e \<Rightarrow> Inl e
         | Inr s' \<Rightarrow> bubble_loop total_bubbles s' fs)
      else Inr s)"

definition spawn_random_bubbles :: "gaze_tracker \<Rightarrow> int \<Rightarrow> frame list \<Rightarrow> error + bubble_state" where
  "spawn_random_bubbles self total_bubbles fs =
     bubble_loop total_bubbles
       \<lparr>tracker = self, bubbles_left = total_bubbles, bubble_position = None,
        gaze_on_bubble = False, hits = []\<rparr> fs"

subsection \<open>Concrete inputs\<close>

text \<open>
  A tracker on a screen of 1920 by 1080 pixels with the default history capacity 3, an
  empty history and the calibration \<open>{top: 0, left: 100, right: 0, bottom: 100}\<close>; the
  same tracker with a full history; and one whose horizontal axis has zero span.
\<close>

definition calibration0 :: calibration where
  "calibration0 = \<lparr>top' = 0, left = 100, right = 0, bottom = 100\<rparr>"

definition tracker0 :: gaze_tracker where
  "tracker0 =
     \<lparr>SCREEN_WIDTH = 1920, SCREEN_HEIGHT = 1080, max_positions = 3, last_positions = [],
      calibration_data = \<lparr>top' = 0, left = 100, right = 0, bottom = 100\<rparr>\<rparr>"

definition tracker_full :: gaze_tracker where
  "tracker_full =
     \<lparr>SCREEN_WIDTH = 1920, SCREEN_HEIGHT = 1080, max_positions = 3,
      last_positions = [(0, 0), (192, 108), (384, 216)],
      calibration_data = \<lparr>top' = 0, left = 100, right = 0, bottom = 100\<rparr>\<rparr>"


text \<open>
  The store with which \<open>__init__\<close> starts the calibration, and a frame on which the
  space bar is pressed while the detector sees both pupils, at (300, 240) and (340, 236).
\<close>

definition calibration_empty :: calibration where
  "calibration_empty = \<lparr>top' = 0, left = 0, right = 0, bottom = 0\<rparr>"

definition frame0 :: frame where
  "frame0 =
     \<lparr>horizontal_ratio = Some 0.5, is_blinking = False,
      pupil_left_coords = Some (300, 240), pupil_right_coords = Some (340, 236),
      events = [KEYDOWN_SPACE], randint = (400, 300)\<rparr>"

text \<open>
  Two states of the bubble game with a bubble at (320, 180), with and without the gaze
  on it, and a frame that reports a blink.
\<close>

definition state_on :: bubble_state where
  "state_on =
     \<lparr>tracker = tracker0, bubbles_left = 20, bubble_position = Some (320, 180),
      gaze_on_bubble = True, hits = []\<rparr>"

definition state_off :: bubble_state where
  "state_off =
     \<lparr>tracker = tracker0, bubbles_left = 20, bubble_position = Some (320, 180),
      gaze_on_bubble = False, hits = []\<rparr>"

definition frame_blink :: frame where
  "frame_blink =
     \<lparr>horizontal_ratio = Some 0.5, is_blinking = True,
      pupil_left_coords = Some (50, 50), pupil_right_coords = Some (50, 50),
      events = [], randint = (700, 500)\<rparr>"

text \<open>
  A frame on which the detector reports no blink and no left pupil, but does report
  the right pupil.
\<close>

definition frame_left_lost :: frame where
  "frame_left_lost =
     \<lparr>horizontal_ratio = None, is_blinking = False,
      pupil_left_coords = None, pupil_right_coords = Some (50, 50),
      events = [], randint = (700, 500)\<rparr>"

section \<open>Properties of the position mapper\<close>

text \<open>The summation loop of \<open>get_gaze_position\<close> adds up the two components.\<close>

lemma foldl_pair_sum:
  "foldl (\<lambda>(x_sum, y_sum) (x, y). (x_sum + x, y_sum + y)) (a, b) ps =
     (a + sum_list (map fst ps), b + sum_list (map snd ps :: real list))"
  by (induction ps arbitrary: a b) (auto simp: algebra_simps)

text \<open>
  The call returns exactly when no divisor is zero, and then its result has this
  closed form.
\<close>

lemma get_gaze_position_Inr:
  assumes "left (calibration_data self) \<noteq> right (calibration_data self)"
      and "bottom (calibration_data self) \<noteq> top' (calibration_data self)"
      and "max_positions self \<noteq> 0"
  shows "get_gaze_position self h v =
     (let c = calibration_data self;
          nh = 1 - (max (right c) (min h (left c)) - right c) / (left c - right c);
          nv = (max (top' c) (min v (bottom c)) - top' c) / (bottom c - top' c);
          ps = slice_from (last_positions self @
                 [(nh * real_of_int (SCREEN_WIDTH self), nv * real_of_int (SCREEN_HEIGHT self))])
                 (- max_positions self)
      in Inr (self\<lparr>last_positions := ps\<rparr>,
              sum_list (map fst ps) / real_of_int (max_positions self),
              sum_list (map snd ps) / real_of_int (max_positions self),
              (nh, nv)))"
  using assms by (simp add: get_gaze_position_def Let_def foldl_pair_sum)

lemma get_gaze_position_Inr_D:
  assumes "get_gaze_position self h v = Inr r"
  shows "left (calibration_data self) \<noteq> right (calibration_data self) \<and>
         bottom (calibration_data self) \<noteq> top' (calibration_data self) \<and>
         max_positions self \<noteq> 0"
  using assms by (auto simp add: get_gaze_position_def Let_def split: prod.splits if_splits)

lemma tracker0_run:
  "get_gaze_position tracker0 50 50 =
     Inr (tracker0\<lparr>last_positions := [(960, 540)]\<rparr>, 320, 180, (1/2, 1/2))"
  by (simp add: get_gaze_position_def tracker0_def slice_from_def Let_def)

text \<open>
  Claim C1. Whenever \<open>get_gaze_position\<close> returns, the smoothed point is the
  component-wise sum of the entries that the history holds after the call, divided by
  the capacity \<open>max_positions\<close> and not by the number of entries. In particular, with
  capacity 3 and an empty history before the call, the history then holds the mapped
  point alone and the returned point is the mapped point divided by 3.
\<close>

theorem get_gaze_position_divides_by_capacity:
  assumes "get_gaze_position self h v = Inr (self', x_avg, y_avg, n)"
  shows "x_avg = sum_list (map fst (last_positions self')) / real_of_int (max_positions self) \<and>
         y_avg = sum_list (map snd (last_positions self')) / real_of_int (max_positions self) \<and>
         (max_positions self = 3 \<and> last_positions self = [] \<longrightarrow>
            last_positions self' =
              [(fst n * real_of_int (SCREEN_WIDTH self), snd n * real_of_int (SCREEN_HEIGHT self))] \<and>
            x_avg = fst n * real_of_int (SCREEN_WIDTH self) / 3 \<and>
            y_avg = snd n * real_of_int (SCREEN_HEIGHT self) / 3)"
proof -
  define c where "c = calibration_data self"
  define nh where "nh = 1 - (max (right c) (min h (left c)) - right c) / (left c - right c)"
  define nv where "nv = (max (top' c) (min v (bottom c)) - top' c) / (bottom c - top' c)"
  define ps where "ps = slice_from (last_positions self @
        [(nh * real_of_int (SCREEN_WIDTH self), nv * real_of_int (SCREEN_HEIGHT self))])
        (- max_positions self)"
  note ok = get_gaze_position_Inr_D [OF assms]
  have "get_gaze_position self h v =
      Inr (self\<lparr>last_positions := ps\<rparr>,
           sum_list (map fst ps) / real_of_int (max_positions self),
           sum_list (map snd ps) / real_of_int (max_positions self), (nh, nv))"
    using ok get_gaze_position_Inr [of self h v]
    by (simp add: Let_def c_def nh_def nv_def ps_def)
  with assms have eqs: "self' = self\<lparr>last_positions := ps\<rparr>"
      "x_avg = sum_list (map fst ps) / real_of_int (max_positions self)"
      "y_avg = sum_list (map snd ps) / real_of_int (max_positions self)"
      "n = (nh, nv)"
    by simp_all
  have single: "ps = [(nh * real_of_int (SCREEN_WIDTH self), nv * real_of_int (SCREEN_HEIGHT self))]"
    if "max_positions self = 3" "last_positions self = []"
    using that by (simp add: ps_def slice_from_def)
  show ?thesis
    using eqs single by auto
qed

theorem get_gaze_position_divides_by_capacity_witness:
  "get_gaze_position tracker0 50 50 =
     Inr (tracker0\<lparr>last_positions := [(960, 540)]\<rparr>, 320, 180, (1/2, 1/2)) \<and>
   (320::real) = sum_list (map fst [(960, 540::real)]) / 3 \<and>
   (180::real) = sum_list (map snd [(960::real, 540)]) / 3 \<and>
   (320::real) = 1/2 * 1920 / 3 \<and> (180::real) = 1/2 * 1080 / 3"
  using get_gaze_position_divides_by_capacity [OF tracker0_run] tracker0_run
  by (simp add: tracker0_def)

text \<open>
  Claim C2. For a calibration with \<open>left \<noteq> right\<close> and \<open>bottom \<noteq> top\<close> (and a positive
  history capacity, so that the call returns), \<open>get_gaze_position\<close> clamps the raw
  horizontal value with \<open>max(right, min(h, left))\<close> and the raw vertical value with
  \<open>max(top, min(v, bottom))\<close>, which lie in \<open>[right, left]\<close> and \<open>[top, bottom]\<close> when
  these intervals are not empty; the normalised pair is
  \<open>1 - (clamped_h - right) / (left - right)\<close> and \<open>(clamped_v - top) / (bottom - top)\<close>;
  the mapped point, the newest entry of the history, is that pair scaled by the screen
  width and height. For the calibration \<open>{top: 0, left: 100, right: 0, bottom: 100}\<close>
  and the raw sample (50, 50) the normalised pair is (0.5, 0.5).
\<close>

theorem get_gaze_position_normalizes:
  assumes "left (calibration_data self) \<noteq> right (calibration_data self)"
      and "bottom (calibration_data self) \<noteq> top' (calibration_data self)"
      and "0 < max_positions self"
  shows "\<exists>self' x_avg y_avg nh nv.
           get_gaze_position self h v = Inr (self', x_avg, y_avg, (nh, nv)) \<and>
           nh = 1 - (max (right (calibration_data self)) (min h (left (calibration_data self)))
                       - right (calibration_data self))
                    / (left (calibration_data self) - right (calibration_data self)) \<and>
           nv = (max (top' (calibration_data self)) (min v (bottom (calibration_data self)))
                   - top' (calibration_data self))
                / (bottom (calibration_data self) - top' (calibration_data self)) \<and>
           last (last_positions self') =
             (nh * real_of_int (SCREEN_WIDTH self), nv * real_of_int (SCREEN_HEIGHT self)) \<and>
           (right (calibration_data self) \<le> left (calibration_data self) \<longrightarrow>
              right (calibration_data self)
                \<le> max (right (calibration_data self)) (min h (left (calibration_data self))) \<and>
              max (right (calibration_data self)) (min h (left (calibration_data self)))
                \<le> left (calibration_data self)) \<and>
           (top' (calibration_data self) \<le> bottom (calibration_data self) \<longrightarrow>
              top' (calibration_data self)
                \<le> max (top' (calibration_data self)) (min v (bottom (calibration_data self))) \<and>
              max (top' (calibration_data self)) (min v (bottom (calibration_data self)))
                \<le> bottom (calibration_data self)) \<and>
           (calibration_data self = \<lparr>top' = 0, left = 100, right = 0, bottom = 100\<rparr> \<and>
            h = 50 \<and> v = 50 \<longrightarrow> (nh, nv) = (1/2, 1/2))"
proof -
  have "slice_from (xs @ [p]) (- max_positions self) \<noteq> [] \<and>
        last (slice_from (xs @ [p]) (- max_positions self)) = p"
    for xs :: "(real \<times> real) list" and p
    using assms(3) by (simp add: slice_from_def)
  then show ?thesis
    using assms get_gaze_position_Inr [of self h v] by (simp add: Let_def)
qed

theorem get_gaze_position_normalizes_witness:
  "left (calibration_data tracker0) \<noteq> right (calibration_data tracker0) \<and>
   bottom (calibration_data tracker0) \<noteq> top' (calibration_data tracker0) \<and>
   0 < max_positions tracker0 \<and>
   get_gaze_position tracker0 50 50 =
     Inr (tracker0\<lparr>last_positions := [(960, 540)]\<rparr>, 320, 180, (1/2, 1/2))"
  using get_gaze_position_normalizes [of tracker0 50 50]
  by (simp add: tracker0_def get_gaze_position_def slice_from_def Let_def)

text \<open>
  With a calibration that is not degenerate and a capacity of zero, the call raises at
  the return statement, after the history has been stored.
\<close>

lemma get_gaze_position_zero_capacity:
  assumes "left (calibration_data self) \<noteq> right (calibration_data self)"
      and "bottom (calibration_data self) \<noteq> top' (calibration_data self)"
      and "max_positions self = 0"
  shows "get_gaze_position self h v =
     (let c = calibration_data self;
          nh = 1 - (max (right c) (min h (left c)) - right c) / (left c - right c);
          nv = (max (top' c) (min v (bottom c)) - top' c) / (bottom c - top' c)
      in Inl (ZeroDivisionError,
              self\<lparr>last_positions := last_positions self @
                 [(nh * real_of_int (SCREEN_WIDTH self), nv * real_of_int (SCREEN_HEIGHT self))]\<rparr>))"
  using assms by (simp add: get_gaze_position_def Let_def slice_from_def split: prod.splits)




text \<open>
  Claim C9. If the history holds at most \<open>max_positions\<close> entries before a call of
  \<open>get_gaze_position\<close> that returns, then it holds at most \<open>max_positions\<close> entries
  afterwards, it is not empty, its last entry is the newly mapped point, and it is the
  last \<open>max_positions\<close> elements of the old history with the new point appended: the
  old history with the new point when there was room, and the old history without its
  oldest entry, with the new point, when it was full.
\<close>

theorem history_bounded:
  assumes "get_gaze_position self h v = Inr (self', x_avg, y_avg, n)"
      and "int (length (last_positions self)) \<le> max_positions self"
  shows "int (length (last_positions self')) \<le> max_positions self \<and>
         last_positions self' \<noteq> [] \<and>
         last (last_positions self') =
           (fst n * real_of_int (SCREEN_WIDTH self), snd n * real_of_int (SCREEN_HEIGHT self)) \<and>
         last_positions self' =
           (let xs = last_positions self @
                  [(fst n * real_of_int (SCREEN_WIDTH self), snd n * real_of_int (SCREEN_HEIGHT self))]
            in drop (length xs - nat (max_positions self)) xs) \<and>
         (int (length (last_positions self)) < max_positions self \<longrightarrow>
            last_positions self' = last_positions self @
              [(fst n * real_of_int (SCREEN_WIDTH self), snd n * real_of_int (SCREEN_HEIGHT self))]) \<and>
         (int (length (last_positions self)) = max_positions self \<longrightarrow>
            last_positions self' = tl (last_positions self) @
              [(fst n * real_of_int (SCREEN_WIDTH self), snd n * real_of_int (SCREEN_HEIGHT self))])"
proof -
  define p where
    "p = (fst n * real_of_int (SCREEN_WIDTH self), snd n * real_of_int (SCREEN_HEIGHT self))"
  define old where "old = last_positions self"
  define k where "k = nat (max_positions self)"
  note ok = get_gaze_position_Inr_D [OF assms(1)]
  from ok assms(2) have kpos: "0 < max_positions self" by linarith
  have "get_gaze_position self h v =
      Inr (self\<lparr>last_positions := slice_from (old @ [p]) (- max_positions self)\<rparr>, x_avg, y_avg, n)"
    using ok assms(1) get_gaze_position_Inr [of self h v]
    by (auto simp add: Let_def p_def old_def)
  with assms(1) have new: "last_positions self' = slice_from (old @ [p]) (- max_positions self)"
    by auto
  define ps where "ps = drop (length (old @ [p]) - k) (old @ [p])"
  have sl: "slice_from (old @ [p]) (- max_positions self) = ps"
    using kpos by (simp add: slice_from_def k_def ps_def nat_diff_distrib' nat_add_distrib)
  have len: "length old \<le> k" and k1: "0 < k" and kk: "int k = max_positions self"
    using assms(2) kpos by (simp_all add: old_def k_def)
  have a: "int (length ps) \<le> max_positions self"
    using len k1 kk by (auto simp: ps_def)
  have b: "ps \<noteq> []" using k1 by (simp add: ps_def)
  have c: "last ps = p" using k1 by (simp add: ps_def)
  have d: "ps = old @ [p]" if "int (length old) < max_positions self"
    using that kk by (simp add: ps_def)
  have e: "ps = tl old @ [p]" if "int (length old) = max_positions self"
  proof -
    from that kk have "length old = k" by simp
    then show ?thesis using k1 by (cases old) (simp_all add: ps_def)
  qed
  have f: "last_positions self' = ps" using new sl by simp
  have g: "(let xs = last_positions self @ [p] in drop (length xs - nat (max_positions self)) xs) = ps"
    by (simp only: Let_def ps_def old_def k_def)
  show ?thesis
    unfolding p_def [symmetric] g
    unfolding f old_def [symmetric]
    using a b c d e by blast
qed

theorem history_bounded_witness:
  "get_gaze_position tracker_full 50 50 =
     Inr (tracker_full\<lparr>last_positions := [(192, 108), (384, 216), (960, 540)]\<rparr>,
          512, 288, (1/2, 1/2)) \<and>
   int (length (last_positions tracker_full)) \<le> max_positions tracker_full \<and>
   [(192, 108), (384, 216), (960, 540::real)] =
     tl [(0, 0), (192, 108), (384, 216::real)] @ [(960::real, 540)]"
proof -
  have run: "get_gaze_position tracker_full 50 50 =
     Inr (tracker_full\<lparr>last_positions := [(192, 108), (384, 216), (960, 540)]\<rparr>,
          512, 288, (1/2, 1/2))"
    by (simp add: get_gaze_position_def tracker_full_def slice_from_def Let_def)
  have len: "int (length (last_positions tracker_full)) \<le> max_positions tracker_full"
    by (simp add: tracker_full_def)
  from history_bounded [OF run len] run len show ?thesis by simp
qed

section \<open>Properties of the calibration smoother\<close>

text \<open>
  Claim C6. \<open>smooth_calibration\<close> sets \<open>top\<close> and \<open>bottom\<close> to the vertical midpoint
  \<open>(top + bottom) / 2\<close> minus and plus that midpoint times 0.020, and \<open>right\<close> and
  \<open>left\<close> to the horizontal midpoint \<open>(left + right) / 2\<close> minus and plus the vertical
  midpoint times 0.030; all midpoints are those of the store before the call.
\<close>

theorem smooth_calibration_fields:
  "top' (smooth_calibration c) = (top' c + bottom c) / 2 - (top' c + bottom c) / 2 * 0.020 \<and>
   bottom (smooth_calibration c) = (top' c + bottom c) / 2 + (top' c + bottom c) / 2 * 0.020 \<and>
   right (smooth_calibration c) = (left c + right c) / 2 - (top' c + bottom c) / 2 * 0.030 \<and>
   left (smooth_calibration c) = (left c + right c) / 2 + (top' c + bottom c) / 2 * 0.030"
  by (simp add: smooth_calibration_def Let_def)

text \<open>
  Claim C5, as stated, fails: smoothing \<open>{top: 0, left: 100, right: 0, bottom: 100}\<close>
  gives \<open>{top: 49, left: 51.5, right: 48.5, bottom: 51}\<close>, and smoothing that again
  gives the same four values, although the factors 0.020 and 0.030 are not zero.
\<close>

theorem smooth_calibration_twice_counterexample:
  "smooth_calibration calibration0 = \<lparr>top' = 49, left = 51.5, right = 48.5, bottom = 51\<rparr> \<and>
   smooth_calibration (smooth_calibration calibration0) =
     \<lparr>top' = 49, left = 51.5, right = 48.5, bottom = 51\<rparr>"
  by (simp add: smooth_calibration_def calibration0_def Let_def)

text \<open>
  Claim C5, amended. Although the factors 0.020 and 0.030 are nonzero, a second
  application of \<open>smooth_calibration\<close> does not always change \<open>top\<close>, \<open>bottom\<close>,
  \<open>left\<close> and \<open>right\<close>: there is a store that the first application changes and whose
  four values the second application leaves as the first one set them.
\<close>

theorem smooth_calibration_second_pass_may_leave_unchanged:
  "\<exists>c. smooth_calibration c \<noteq> c \<and>
       top' (smooth_calibration (smooth_calibration c)) = top' (smooth_calibration c) \<and>
       bottom (smooth_calibration (smooth_calibration c)) = bottom (smooth_calibration c) \<and>
       left (smooth_calibration (smooth_calibration c)) = left (smooth_calibration c) \<and>
       right (smooth_calibration (smooth_calibration c)) = right (smooth_calibration c)"
proof (rule exI [of _ calibration0])
  have once: "smooth_calibration calibration0 =
                \<lparr>top' = 49, left = 51.5, right = 48.5, bottom = 51\<rparr>"
    by (simp add: smooth_calibration_def calibration0_def Let_def)
  have twice: "smooth_calibration \<lparr>top' = 49, left = 51.5, right = 48.5, bottom = 51\<rparr> =
                 \<lparr>top' = 49, left = 51.5, right = 48.5, bottom = 51\<rparr>"
    by (simp add: smooth_calibration_def Let_def)
  have changed: "\<lparr>top' = 49, left = 51.5, right = 48.5, bottom = 51\<rparr> \<noteq> calibration0"
    by (simp add: calibration0_def)
  show "smooth_calibration calibration0 \<noteq> calibration0 \<and>
       top' (smooth_calibration (smooth_calibration calibration0)) =
         top' (smooth_calibration calibration0) \<and>
       bottom (smooth_calibration (smooth_calibration calibration0)) =
         bottom (smooth_calibration calibration0) \<and>
       left (smooth_calibration (smooth_calibration calibration0)) =
         left (smooth_calibration calibration0) \<and>
       right (smooth_calibration (smooth_calibration calibration0)) =
         right (smooth_calibration calibration0)"
    unfolding once twice using changed by simp
qed

section \<open>Properties of the calibration procedure\<close>

lemma bubbles_1920_1080:
  "bubbles 1920 1080 =
    [(320, 0), (0, 180), (1920, 180), (320, 1080),
     (640, 0), (0, 360), (1920, 360), (640, 1080),
     (960, 0), (0, 540), (1920, 540), (960, 1080),
     (1280, 0), (0, 720), (1920, 720), (1280, 1080),
     (1600, 0), (0, 900), (1920, 900), (1600, 1080)]"
  by (simp add: bubbles_def num_bubbles_def upt_rec)

text \<open>
  Claim C8 does not hold of the code. \<open>__init__\<close> appends the targets edge by edge in
  turn (top, left, right, bottom, top, ...), while \<open>run_calibration\<close> names the field
  by \<open>current_bubble_index // num_bubbles\<close>, five consecutive targets per field. On a
  screen of 1920 by 1080 pixels the second target, (0, 180), lies on the left edge and
  not on the top edge, yet a sample taken for it adds the vertical pupil coordinate,
  divided by 5, to \<open>top\<close>. Of the twenty targets only those with index 0, 4, 5, 9, 10,
  14, 15 and 19 lie on the edge whose field they feed.
\<close>

theorem calibration_target_on_left_edge_feeds_top:
  "bubbles 1920 1080 ! 1 = (0, 180) \<and>
   lies_on 1920 1080 ''left'' (bubbles 1920 1080 ! 1) \<and>
   \<not> lies_on 1920 1080 ''top'' (bubbles 1920 1080 ! 1) \<and>
   calibration_location ! (1 div num_bubbles) = ''top'' \<and>
   calibrate_space frame0 (calibration_empty, 1) =
     Inr (\<lparr>top' = 238 / 5, left = 0, right = 0, bottom = 0\<rparr>, 2) \<and>
   filter (\<lambda>i. lies_on 1920 1080 (calibration_location ! (i div num_bubbles))
                 (bubbles 1920 1080 ! i)) [0..<20] =
     [0, 4, 5, 9, 10, 14, 15, 19]"
  by (simp add: bubbles_1920_1080 lies_on_def calibrate_space_def frame0_def
        calibration_empty_def calibration_location_def num_bubbles_def add_to_def upt_rec)

section \<open>Properties of the bubble game\<close>

lemma bubble_frame_hit:
  assumes "100 \<le> SCREEN_WIDTH (tracker s)" and "100 \<le> SCREEN_HEIGHT (tracker s)"
      and "gaze_on_bubble s \<and> (is_blinking f \<or> pupil_left_coords f = None)"
  shows "bubble_frame total_bubbles s f =
              Inr (s\<lparr>hits := hits s @ [total_bubbles - bubbles_left s + 1],
                      bubble_position := None,
                      bubbles_left := bubbles_left s - 1,
                      gaze_on_bubble := False\<rparr>)"
  using assms by (cases "bubble_position s") (auto simp: bubble_frame_def Let_def)

lemma bubble_frame_no_hit:
  assumes "\<not> (gaze_on_bubble s \<and> (is_blinking f \<or> pupil_left_coords f = None))"
      and "bubble_frame total_bubbles s f = Inr s'"
  shows "(let position = (case bubble_position s of None \<Rightarrow> randint f | Some q \<Rightarrow> q)
          in hits s' = hits s \<and> bubbles_left s' = bubbles_left s \<and>
             bubble_position s' = Some position \<and>
             (case (pupil_left_coords f, pupil_right_coords f) of
                (Some l, Some r) \<Rightarrow>
                  (\<exists>self' gaze_x gaze_y n.
                     get_gaze_position (tracker s) ((fst l + fst r) / 2) ((snd l + snd r) / 2) =
                       Inr (self', gaze_x, gaze_y, n) \<and>
                     tracker s' = self' \<and>
                     gaze_on_bubble s' =
                       (sqrt ((gaze_x - real_of_int (fst position))\<^sup>2 +
                              (gaze_y - real_of_int (snd position))\<^sup>2) \<le> 50))
              | _ \<Rightarrow> gaze_on_bubble s' = gaze_on_bubble s \<and> tracker s' = tracker s))"
proof -
  from assms(1) have nh: "\<not> ((gaze_on_bubble s \<and> is_blinking f) \<or>
                (gaze_on_bubble s \<and> pupil_left_coords f = None))" by blast
  define position where
    "position = (case bubble_position s of None \<Rightarrow> randint f | Some q \<Rightarrow> q)"
  have pos: "(case bubble_position s of
                 None \<Rightarrow>
                   if SCREEN_WIDTH (tracker s) - 50 < 50 \<or> SCREEN_HEIGHT (tracker s) - 50 < 50
                   then Inl ValueError else Inr (randint f)
               | Some p \<Rightarrow> Inr p) = Inr position"
    using assms(2) unfolding bubble_frame_def Let_def position_def
    by (auto split: sum.splits option.splits if_splits)
  have "hits s' = hits s \<and> bubbles_left s' = bubbles_left s \<and>
             bubble_position s' = Some position \<and>
             (case (pupil_left_coords f, pupil_right_coords f) of
                (Some l, Some r) \<Rightarrow>
                  (\<exists>self' gaze_x gaze_y n.
                     get_gaze_position (tracker s) ((fst l + fst r) / 2) ((snd l + snd r) / 2) =
                       Inr (self', gaze_x, gaze_y, n) \<and>
                     tracker s' = self' \<and>
                     gaze_on_bubble s' =
                       (sqrt ((gaze_x - real_of_int (fst position))\<^sup>2 +
                              (gaze_y - real_of_int (snd position))\<^sup>2) \<le> 50))
              | _ \<Rightarrow> gaze_on_bubble s' = gaze_on_bubble s \<and> tracker s' = tracker s)"
    using assms(2) nh unfolding bubble_frame_def Let_def pos
    by (auto split: option.splits sum.splits prod.splits if_splits)
  then show ?thesis
    unfolding Let_def position_def [symmetric] .
qed

text \<open>Every pass of the loop keeps the sum of the hits made and the bubbles left.\<close>

lemma bubble_frame_balance:
  assumes "bubble_frame total_bubbles s f = Inr s'"
  shows "int (length (hits s')) + bubbles_left s' = int (length (hits s)) + bubbles_left s"
  using assms unfolding bubble_frame_def Let_def
  by (auto split: option.splits sum.splits prod.splits if_splits)

lemma bubble_loop_balance:
  "bubble_loop total_bubbles s fs = Inr s' \<Longrightarrow>
     int (length (hits s')) + bubbles_left s' = int (length (hits s)) + bubbles_left s"
proof (induction fs arbitrary: s)
  case Nil
  then show ?case by simp
next
  case (Cons f fs)
  then show ?case
    by (auto split: if_splits sum.splits dest!: bubble_frame_balance)
qed

lemma state_off_run:
  "bubble_frame 20 state_off frame_blink =
     Inr (state_off\<lparr>tracker := tracker0\<lparr>last_positions := [(960, 540)]\<rparr>,
                    gaze_on_bubble := True\<rparr>)"
  by (simp add: state_off_def frame_blink_def bubble_frame_def tracker0_run Let_def)

text \<open>
  Claim C7, as stated, fails: with \<open>gaze_on_bubble\<close> true, a frame that reports no
  blink and still reports the right pupil, only the left pupil being lost, registers a
  hit. The loss of pupil detection on that frame is not total.
\<close>

theorem left_pupil_lost_counterexample:
  "gaze_on_bubble state_on \<and>
   \<not> is_blinking frame_left_lost \<and>
   pupil_left_coords frame_left_lost = None \<and>
   pupil_right_coords frame_left_lost = Some (50, 50) \<and>
   bubble_frame 20 state_on frame_left_lost =
     Inr (state_on\<lparr>hits := [1], bubble_position := None, bubbles_left := 19,
                   gaze_on_bubble := False\<rparr>)"
  by (simp add: state_on_def frame_left_lost_def bubble_frame_def Let_def)

text \<open>
  Claim C7, amended. On a screen large enough to place a bubble (at least 100 pixels
  each way), one pass of the loop of \<open>spawn_random_bubbles\<close> registers a hit exactly
  when \<open>gaze_on_bubble\<close> is true on entry and the frame reports a blink or no left
  pupil (\<open>pupil_left_coords()\<close> is \<open>None\<close>; the right pupil is not consulted). Such a
  pass prints exactly one hit, decrements \<open>bubbles_left\<close> by one, clears the bubble
  and resets \<open>gaze_on_bubble\<close>. Any other pass that completes prints no hit and
  leaves \<open>bubbles_left\<close> as it is, a blink with \<open>gaze_on_bubble\<close> false included, and
  keeps the bubble of this pass; if it sees both pupils it sets \<open>gaze_on_bubble\<close> to
  whether the smoothed gaze point is within 50 pixels of the centre of that bubble, and
  otherwise it leaves the flag and the tracker unchanged.
\<close>

theorem bubble_hit_rule:
  assumes "100 \<le> SCREEN_WIDTH (tracker s)" and "100 \<le> SCREEN_HEIGHT (tracker s)"
  shows "(gaze_on_bubble s \<and> (is_blinking f \<or> pupil_left_coords f = None) \<longrightarrow>
            bubble_frame total_bubbles s f =
              Inr (s\<lparr>hits := hits s @ [total_bubbles - bubbles_left s + 1],
                      bubble_position := None,
                      bubbles_left := bubbles_left s - 1,
                      gaze_on_bubble := False\<rparr>)) \<and>
         (\<not> (gaze_on_bubble s \<and> (is_blinking f \<or> pupil_left_coords f = None)) \<longrightarrow>
            (\<forall>s'. bubble_frame total_bubbles s f = Inr s' \<longrightarrow>
               (let position = (case bubble_position s of None \<Rightarrow> randint f | Some q \<Rightarrow> q)
          in hits s' = hits s \<and> bubbles_left s' = bubbles_left s \<and>
             bubble_position s' = Some position \<and>
             (case (pupil_left_coords f, pupil_right_coords f) of
                (Some l, Some r) \<Rightarrow>
                  (\<exists>self' gaze_x gaze_y n.
                     get_gaze_position (tracker s) ((fst l + fst r) / 2) ((snd l + snd r) / 2) =
                       Inr (self', gaze_x, gaze_y, n) \<and>
                     tracker s' = self' \<and>
                     gaze_on_bubble s' =
                       (sqrt ((gaze_x - real_of_int (fst position))\<^sup>2 +
                              (gaze_y - real_of_int (snd position))\<^sup>2) \<le> 50))
              | _ \<Rightarrow> gaze_on_bubble s' = gaze_on_bubble s \<and> tracker s' = tracker s))))"
proof (rule conjI)
  show "gaze_on_bubble s \<and> (is_blinking f \<or> pupil_left_coords f = None) \<longrightarrow>
            bubble_frame total_bubbles s f =
              Inr (s\<lparr>hits := hits s @ [total_bubbles - bubbles_left s + 1],
                      bubble_position := None,
                      bubbles_left := bubbles_left s - 1,
                      gaze_on_bubble := False\<rparr>)"
    by (rule impI) (rule bubble_frame_hit [OF assms])
next
  show "\<not> (gaze_on_bubble s \<and> (is_blinking f \<or> pupil_left_coords f = None)) \<longrightarrow>
            (\<forall>s'. bubble_frame total_bubbles s f = Inr s' \<longrightarrow>
               (let position = (case bubble_position s of None \<Rightarrow> randint f | Some q \<Rightarrow> q)
          in hits s' = hits s \<and> bubbles_left s' = bubbles_left s \<and>
             bubble_position s' = Some position \<and>
             (case (pupil_left_coords f, pupil_right_coords f) of
                (Some l, Some r) \<Rightarrow>
                  (\<exists>self' gaze_x gaze_y n.
                     get_gaze_position (tracker s) ((fst l + fst r) / 2) ((snd l + snd r) / 2) =
                       Inr (self', gaze_x, gaze_y, n) \<and>
                     tracker s' = self' \<and>
                     gaze_on_bubble s' =
                       (sqrt ((gaze_x - real_of_int (fst position))\<^sup>2 +
                              (gaze_y - real_of_int (snd position))\<^sup>2) \<le> 50))
              | _ \<Rightarrow> gaze_on_bubble s' = gaze_on_bubble s \<and> tracker s' = tracker s)))"
    by (rule impI, rule allI, rule impI) (rule bubble_frame_no_hit)
qed

theorem bubble_hit_rule_witness:
  "100 \<le> SCREEN_WIDTH (tracker state_on) \<and> 100 \<le> SCREEN_HEIGHT (tracker state_on) \<and>
   bubble_frame 20 state_on frame_blink =
     Inr (state_on\<lparr>hits := [1], bubble_position := None, bubbles_left := 19,
                   gaze_on_bubble := False\<rparr>) \<and>
   bubble_frame 20 state_off frame_blink =
     Inr (state_off\<lparr>tracker := tracker0\<lparr>last_positions := [(960, 540)]\<rparr>,
                    gaze_on_bubble := True\<rparr>) \<and>
   hits (state_off\<lparr>tracker := tracker0\<lparr>last_positions := [(960, 540)]\<rparr>,
                    gaze_on_bubble := True\<rparr>) = hits state_off"
  using bubble_hit_rule [of state_on frame_blink 20] bubble_hit_rule [of state_off frame_blink 20]
    state_off_run
  by (simp add: state_on_def state_off_def frame_blink_def tracker0_def)

end
